theory Spec2Isabelle
  imports Main "HOL-Library.Sublist"
begin

section \<open>Execution API routes for task instances\<close>

text \<open>
  A shallow embedding of \<^verbatim>\<open>airflow/api_fastapi/execution_api/routes/task_instances.py\<close>:
  the handlers \<^verbatim>\<open>ti_run\<close>, \<^verbatim>\<open>ti_update_state\<close> and \<^verbatim>\<open>ti_heartbeat\<close>.
  The SQLAlchemy session is an explicit value that every handler takes and returns;
  an \<^verbatim>\<open>HTTPException\<close> or an uncaught Python exception is the left summand of the
  handler's result. The clock (\<^verbatim>\<open>timezone.utcnow()\<close>) is a parameter of the
  handlers that read it; each of them reads it once.
\<close>

subsection \<open>Data model\<close>

text \<open>A datetime is a number of microseconds since the epoch, a timedelta a number of
  microseconds; JSON values are opaque.\<close>

type_synonym datetime = int
type_synonym timedelta = int
type_synonym json = string

text \<open>Modelled from the spec: the \<^verbatim>\<open>State\<close> enumeration (\<^verbatim>\<open>airflow.utils.state\<close>) is
  missing from the sources; these are the states the specification names.\<close>

datatype State = QUEUED | RUNNING | SUCCESS | FAILED | SKIPPED | DEFERRED | UP_FOR_RESCHEDULE

text \<open>Modelled from the spec: the state field of the terminal payload ranges over the
  fixed terminal set (SUCCESS, FAILED, SKIPPED); the payload classes are missing from the
  sources.\<close>

datatype TerminalTIState = TERMINAL_SUCCESS | TERMINAL_FAILED | TERMINAL_SKIPPED

fun State_of :: "TerminalTIState \<Rightarrow> State" where
  "State_of TERMINAL_SUCCESS = SUCCESS"
| "State_of TERMINAL_FAILED = FAILED"
| "State_of TERMINAL_SKIPPED = SKIPPED"

text \<open>A row of the task instance table. The primary key \<^verbatim>\<open>TI.id\<close> is the key of the
  table (see \<open>Session\<close> below), the remaining columns are the fields. Nullable columns
  are options.\<close>

record TI =
  task_id :: string
  dag_id :: string
  run_id :: string
  try_number :: int
  map_index :: int
  state :: State
  hostname :: "string option"
  unixname :: "string option"
  pid :: "int option"
  start_date :: "datetime option"
  end_date :: "datetime option"
  duration :: "timedelta option"
  next_method :: "string option"
  next_kwargs :: "json option"
  trigger_id :: "int option"
  trigger_timeout :: "datetime option"
  last_heartbeat_at :: "datetime option"

text \<open>The columns of a \<^verbatim>\<open>DagRun\<close> row that \<^verbatim>\<open>ti_run\<close> selects.\<close>

record DR =
  dr_run_id :: string
  dr_dag_id :: string
  dr_data_interval_start :: "datetime option"
  dr_data_interval_end :: "datetime option"
  dr_start_date :: "datetime option"
  dr_end_date :: "datetime option"
  dr_run_type :: string
  dr_conf :: json
  dr_logical_date :: "datetime option"

record TIRunContext =
  dag_run :: DR
  variables :: "string list"
  connections :: "string list"

text \<open>Modelled from the spec: the \<^verbatim>\<open>Trigger\<close> class (\<^verbatim>\<open>airflow.models.trigger\<close>) is
  missing from the sources. A trigger has the classpath of the resumption handler, opaque
  kwargs and an identifier that the store assigns. The handler constructs it from classpath
  and kwargs alone, so the identifier of a constructed object is unset until the store has
  inserted the row, which happens when the session is flushed.\<close>

record Trigger_row =
  id_col :: "int option"
  classpath :: string
  kwargs :: json

definition Trigger :: "string \<Rightarrow> json \<Rightarrow> Trigger_row" where
  "Trigger cp kw = \<lparr>id_col = None, classpath = cp, kwargs = kw\<rparr>"

text \<open>Modelled from the spec: the \<^verbatim>\<open>TaskReschedule\<close> class
  (\<^verbatim>\<open>airflow.models.taskreschedule\<close>) is missing from the sources. A reschedule record
  captures task id, dag id, run id, try number, actual start date, end date, scheduled
  reschedule date and map index, in the order of the constructor call.\<close>

record TaskReschedule_row =
  tr_task_id :: string
  tr_dag_id :: string
  tr_run_id :: string
  tr_try_number :: int
  tr_start_date :: datetime
  tr_end_date :: datetime
  tr_reschedule_date :: datetime
  tr_map_index :: int

definition TaskReschedule ::
  "string \<Rightarrow> string \<Rightarrow> string \<Rightarrow> int \<Rightarrow> datetime \<Rightarrow> datetime \<Rightarrow> datetime \<Rightarrow> int
     \<Rightarrow> TaskReschedule_row" where
  "TaskReschedule t d r n sd ed rd m =
     \<lparr>tr_task_id = t, tr_dag_id = d, tr_run_id = r, tr_try_number = n, tr_start_date = sd,
      tr_end_date = ed, tr_reschedule_date = rd, tr_map_index = m\<rparr>"

subsection \<open>Payloads\<close>

text \<open>Modelled from the spec: the payload classes
  (\<^verbatim>\<open>airflow.api_fastapi.execution_api.datamodels.taskinstance\<close>) are missing from the
  sources. Start-run carries the worker identity (hostname, unixname, pid), heartbeat
  carries (hostname, pid), and the update-state payload is a tagged variant of a terminal,
  a deferred and a reschedule payload with the fields the handler reads.\<close>

record TIEnterRunningPayload =
  run_hostname :: string
  run_unixname :: string
  run_pid :: int

record TIHeartbeatInfo =
  hb_hostname :: string
  hb_pid :: int

record TITerminalStatePayload_fields =
  term_state :: TerminalTIState
  term_end_date :: datetime

record TIDeferredStatePayload_fields =
  def_classpath :: string
  def_trigger_kwargs :: json
  def_next_method :: string
  def_trigger_timeout :: "timedelta option"

record TIRescheduleStatePayload_fields =
  res_end_date :: datetime
  res_reschedule_date :: datetime

datatype TIStateUpdate =
    TITerminalStatePayload TITerminalStatePayload_fields
  | TIDeferredStatePayload TIDeferredStatePayload_fields
  | TIRescheduleStatePayload TIRescheduleStatePayload_fields

subsection \<open>Errors\<close>

text \<open>The \<^verbatim>\<open>HTTPException\<close>s the handlers raise, with the contents of their
  \<^verbatim>\<open>detail\<close>, and the uncaught exceptions: the \<^verbatim>\<open>ValueError\<close> of \<^verbatim>\<open>ti_run\<close>
  and the \<^verbatim>\<open>AttributeError\<close> of reading a column of \<^verbatim>\<open>None\<close> when
  \<^verbatim>\<open>session.get\<close> finds no row.\<close>

datatype error =
    HTTP_404_not_found
  | HTTP_409_invalid_state State
  | HTTP_409_running_elsewhere "string option" "int option"
  | HTTP_409_not_running State
  | HTTP_500_database_error
  | ValueError_DagRun_not_found string string
  | AttributeError_NoneType

subsection \<open>The session\<close>

text \<open>The session holds the rows the handlers read and write. The task instance table is
  keyed by its primary key. \<^verbatim>\<open>session.add\<close> registers an object with the session; the
  handlers never flush, so an added trigger keeps the identifier it was constructed
  with.\<close>

record Session =
  TI_table :: "string \<rightharpoonup> TI"
  DR_table :: "DR list"
  Trigger_table :: "Trigger_row list"
  TaskReschedule_table :: "TaskReschedule_row list"

text \<open>An \<^verbatim>\<open>update(TI).where(TI.id == ti_id_str)\<close> statement is its SET clause: a function
  from the stored row and the row built so far to the new row. \<^verbatim>\<open>.values(...)\<close> adds
  assignments, later ones overriding earlier ones for the same column; every expression
  reads the stored row.\<close>

type_synonym Update = "TI \<Rightarrow> TI \<Rightarrow> TI"

definition update_TI :: Update where
  "update_TI = (\<lambda>stored row. row)"

definition query_values :: "(TI \<Rightarrow> TI \<Rightarrow> TI) \<Rightarrow> Update \<Rightarrow> Update" where
  "query_values v query = (\<lambda>stored row. v stored (query stored row))"

definition session_execute :: "string \<Rightarrow> Update \<Rightarrow> Session \<Rightarrow> Session" where
  "session_execute ti_id_str query session =
     (case TI_table session ti_id_str of
        None \<Rightarrow> session
      | Some stored \<Rightarrow>
          session\<lparr>TI_table := (TI_table session)(ti_id_str \<mapsto> query stored stored)\<rparr>)"

definition session_add_Trigger :: "Trigger_row \<Rightarrow> Session \<Rightarrow> Session" where
  "session_add_Trigger trigger_row session =
     session\<lparr>Trigger_table := Trigger_table session @ [trigger_row]\<rparr>"

definition session_add_TaskReschedule :: "TaskReschedule_row \<Rightarrow> Session \<Rightarrow> Session" where
  "session_add_TaskReschedule r session =
     session\<lparr>TaskReschedule_table := TaskReschedule_table session @ [r]\<rparr>"

text \<open>Modelled from the spec: the session dependency
  (\<^verbatim>\<open>airflow.api_fastapi.common.db.common\<close>) is missing from the sources. When a handler
  has returned, the unit of work is committed: the records added to the session are
  inserted, and the store gives every trigger that has no identifier yet a fresh one, here
  the successor of the largest identifier before it in the table.\<close>

fun assign_ids :: "int \<Rightarrow> Trigger_row list \<Rightarrow> Trigger_row list" where
  "assign_ids n [] = []"
| "assign_ids n (r # rs) =
     (case id_col r of
        None \<Rightarrow> r\<lparr>id_col := Some n\<rparr> # assign_ids (n + 1) rs
      | Some k \<Rightarrow> r # assign_ids (max n (k + 1)) rs)"

definition session_commit :: "Session \<Rightarrow> Session" where
  "session_commit session = session\<lparr>Trigger_table := assign_ids 1 (Trigger_table session)\<rparr>"

text \<open>\<^verbatim>\<open>Result.one_or_none()\<close>: no row is \<^verbatim>\<open>None\<close>, one row is that row, more rows
  raise \<^verbatim>\<open>MultipleResultsFound\<close>, an \<^verbatim>\<open>SQLAlchemyError\<close>.\<close>

fun one_or_none :: "'a list \<Rightarrow> unit + 'a option" where
  "one_or_none [] = Inr None"
| "one_or_none [x] = Inr (Some x)"
| "one_or_none (x # y # zs) = Inl ()"

text \<open>Modelled from the spec: \<^verbatim>\<open>TI.duration_expression_update\<close>
  (\<^verbatim>\<open>airflow.models.taskinstance\<close>) is missing from the sources. It stores the end date
  and recomputes the duration as end date minus the stored start date; without a stored
  start date the duration is null.\<close>

definition duration_expression_update :: "datetime \<Rightarrow> Update \<Rightarrow> Update" where
  "duration_expression_update end_date' query =
     query_values
       (\<lambda>stored row. row\<lparr>end_date := Some end_date',
                         duration := map_option (\<lambda>s. end_date' - s) (start_date stored)\<rparr>)
       query"

subsection \<open>The handlers\<close>

text \<open>Each handler returns the session as it leaves it, also when it raises: an exception
  raised after a statement was executed leaves that write in the session.\<close>

definition ti_run ::
  "string \<Rightarrow> TIEnterRunningPayload \<Rightarrow> Session \<Rightarrow> Session \<times> (error + TIRunContext)" where
  "ti_run ti_id_str ti_run_payload session =
     (case TI_table session ti_id_str of
        None \<Rightarrow> (session, Inl HTTP_404_not_found)
      | Some old \<Rightarrow>
          let previous_state = state old;
              dag_id' = dag_id old;
              run_id' = run_id old;
              query = query_values
                        (\<lambda>stored row. row\<lparr>hostname := Some (run_hostname ti_run_payload),
                                          unixname := Some (run_unixname ti_run_payload),
                                          pid := Some (run_pid ti_run_payload)\<rparr>)
                        update_TI
          in if previous_state \<noteq> QUEUED
             then (session, Inl (HTTP_409_invalid_state previous_state))
             else
               let query = query_values
                             (\<lambda>stored row. row\<lparr>end_date := None,
                                               hostname := Some (run_hostname ti_run_payload),
                                               unixname := Some (run_unixname ti_run_payload),
                                               pid := Some (run_pid ti_run_payload),
                                               state := RUNNING\<rparr>)
                             query;
                   session = session_execute ti_id_str query session
               in (session,
                   case one_or_none
                          (filter (\<lambda>r. dr_dag_id r = dag_id' \<and> dr_run_id r = run_id')
                             (DR_table session)) of
                     Inl _ \<Rightarrow> Inl HTTP_500_database_error
                   | Inr None \<Rightarrow> Inl (ValueError_DagRun_not_found dag_id' run_id')
                   | Inr (Some dr) \<Rightarrow>
                       Inr \<lparr>dag_run = dr, variables = [], connections = []\<rparr>))"

definition ti_update_state ::
  "datetime \<Rightarrow> string \<Rightarrow> TIStateUpdate \<Rightarrow> Session \<Rightarrow> Session \<times> (error + unit)" where
  "ti_update_state utcnow ti_id_str ti_patch_payload session =
     (case TI_table session ti_id_str of
        None \<Rightarrow> (session, Inl HTTP_404_not_found)
      | Some old \<Rightarrow>
          (case ti_patch_payload of
             TITerminalStatePayload p \<Rightarrow>
               let query = query_values
                             (\<lambda>stored row. row\<lparr>state := State_of (term_state p),
                                               end_date := Some (term_end_date p)\<rparr>)
                             update_TI;
                   query = duration_expression_update (term_end_date p) query;
                   query = query_values (\<lambda>stored row. row\<lparr>state := State_of (term_state p)\<rparr>)
                             query;
                   query = (if State_of (term_state p) = FAILED
                            then query_values
                                   (\<lambda>stored row. row\<lparr>next_method := None, next_kwargs := None\<rparr>)
                                   query
                            else query)
               in (session_execute ti_id_str query session, Inr ())
           | TIDeferredStatePayload p \<Rightarrow>
               let timeout = (case def_trigger_timeout p of
                                None \<Rightarrow> None
                              | Some d \<Rightarrow> Some (utcnow + d));
                   trigger_row = Trigger (def_classpath p) (def_trigger_kwargs p);
                   session = session_add_Trigger trigger_row session;
                   query = update_TI;
                   query = query_values
                             (\<lambda>stored row. row\<lparr>state := DEFERRED,
                                               trigger_id := id_col trigger_row,
                                               next_method := Some (def_next_method p),
                                               next_kwargs := Some (def_trigger_kwargs p),
                                               trigger_timeout := timeout\<rparr>)
                             query
               in (session_execute ti_id_str query session, Inr ())
           | TIRescheduleStatePayload p \<Rightarrow>
               (case TI_table session ti_id_str of
                  None \<Rightarrow> (session, Inl AttributeError_NoneType)
                | Some task_instance \<Rightarrow>
                    let actual_start_date = utcnow;
                        session = session_add_TaskReschedule
                                    (TaskReschedule (task_id task_instance) (dag_id task_instance)
                                       (run_id task_instance) (try_number task_instance)
                                       actual_start_date (res_end_date p)
                                       (res_reschedule_date p) (map_index task_instance))
                                    session;
                        query = update_TI;
                        query = duration_expression_update (res_end_date p) query;
                        query = query_values
                                  (\<lambda>stored row. row\<lparr>state := UP_FOR_RESCHEDULE,
                                                    next_method := None,
                                                    next_kwargs := None\<rparr>)
                                  query
                    in (session_execute ti_id_str query session, Inr ()))))"

definition ti_heartbeat ::
  "datetime \<Rightarrow> string \<Rightarrow> TIHeartbeatInfo \<Rightarrow> Session \<Rightarrow> Session \<times> (error + unit)" where
  "ti_heartbeat utcnow ti_id_str ti_payload session =
     (case TI_table session ti_id_str of
        None \<Rightarrow> (session, Inl HTTP_404_not_found)
      | Some old \<Rightarrow>
          let previous_state = state old;
              hostname' = hostname old;
              pid' = pid old
          in if hostname' \<noteq> Some (hb_hostname ti_payload) \<or> pid' \<noteq> Some (hb_pid ti_payload)
             then (session, Inl (HTTP_409_running_elsewhere hostname' pid'))
             else if previous_state \<noteq> RUNNING
             then (session, Inl (HTTP_409_not_running previous_state))
             else (session_execute ti_id_str
                     (query_values (\<lambda>stored row. row\<lparr>last_heartbeat_at := Some utcnow\<rparr>)
                        update_TI)
                     session,
                   Inr ()))"

subsection \<open>Operations and the continuation invariant\<close>

text \<open>A call of one of the three handlers, and the session it leaves behind.\<close>

datatype operation =
    Run string TIEnterRunningPayload
  | UpdateState datetime string TIStateUpdate
  | Heartbeat datetime string TIHeartbeatInfo

fun perform :: "operation \<Rightarrow> Session \<Rightarrow> Session" where
  "perform (Run i p) session = fst (ti_run i p session)"
| "perform (UpdateState utcnow i p) session = fst (ti_update_state utcnow i p session)"
| "perform (Heartbeat utcnow i p) session = fst (ti_heartbeat utcnow i p session)"

text \<open>A terminal update whose final state is not FAILED.\<close>

fun terminal_not_failed :: "operation \<Rightarrow> bool" where
  "terminal_not_failed (UpdateState utcnow i (TITerminalStatePayload p)) =
     (State_of (term_state p) \<noteq> FAILED)"
| "terminal_not_failed _ = False"

text \<open>A terminal update to FAILED or a reschedule update of the instance \<open>i\<close>.\<close>

fun clearing_update :: "string \<Rightarrow> operation \<Rightarrow> bool" where
  "clearing_update i (UpdateState utcnow j (TITerminalStatePayload p)) =
     (j = i \<and> State_of (term_state p) = FAILED)"
| "clearing_update i (UpdateState utcnow j (TIRescheduleStatePayload p)) = (j = i)"
| "clearing_update i _ = False"

text \<open>The invariant of the data model: continuation data only in state DEFERRED.\<close>

definition continuation_invariant :: "TI \<Rightarrow> bool" where
  "continuation_invariant ti =
     (state ti = DEFERRED \<or> (next_method ti = None \<and> next_kwargs ti = None))"

subsection \<open>Sample data\<close>

definition sample_ti :: TI where
  "sample_ti =
     \<lparr>task_id = ''extract'', dag_id = ''etl'', run_id = ''manual_1'', try_number = 1,
      map_index = - 1, state = QUEUED, hostname = None, unixname = None, pid = None,
      start_date = Some 100, end_date = Some 150, duration = Some 50, next_method = None,
      next_kwargs = None, trigger_id = None, trigger_timeout = None,
      last_heartbeat_at = None\<rparr>"

definition sample_dr :: DR where
  "sample_dr =
     \<lparr>dr_run_id = ''manual_1'', dr_dag_id = ''etl'', dr_data_interval_start = Some 0,
      dr_data_interval_end = Some 90, dr_start_date = Some 95, dr_end_date = None,
      dr_run_type = ''manual'', dr_conf = ''{}'', dr_logical_date = Some 0\<rparr>"

definition session_with :: "TI \<Rightarrow> Session" where
  "session_with ti =
     \<lparr>TI_table = [''T1'' \<mapsto> ti], DR_table = [sample_dr], Trigger_table = [],
      TaskReschedule_table = []\<rparr>"

definition worker_h1 :: TIEnterRunningPayload where
  "worker_h1 = \<lparr>run_hostname = ''h1'', run_unixname = ''airflow'', run_pid = 1000\<rparr>"

definition running_ti :: TI where
  "running_ti =
     sample_ti\<lparr>state := RUNNING, hostname := Some ''h1'', unixname := Some ''airflow'',
               pid := Some 1000, end_date := None, last_heartbeat_at := Some 200\<rparr>"

definition sample_deferral :: TIDeferredStatePayload_fields where
  "sample_deferral =
     \<lparr>def_classpath = ''triggers.DateTimeTrigger'', def_trigger_kwargs = ''{moment: 9}'',
      def_next_method = ''execute_complete'', def_trigger_timeout = Some 60\<rparr>"

definition finished_ti :: TI where
  "finished_ti = running_ti\<lparr>state := SUCCESS, end_date := Some 250, duration := Some 150\<rparr>"

definition deferred_ti :: TI where
  "deferred_ti =
     sample_ti\<lparr>end_date := None, hostname := Some ''h1'', unixname := Some ''airflow'',
               pid := Some 1000, state := DEFERRED, trigger_id := None,
               next_method := Some ''execute_complete'', next_kwargs := Some ''{moment: 9}'',
               trigger_timeout := Some 360\<rparr>"

definition start_and_defer :: "operation list" where
  "start_and_defer =
     [Run ''T1'' worker_h1, UpdateState 300 ''T1'' (TIDeferredStatePayload sample_deferral)]"

definition report_success :: operation where
  "report_success =
     UpdateState 400 ''T1''
       (TITerminalStatePayload \<lparr>term_state = TERMINAL_SUCCESS, term_end_date = 400\<rparr>)"

definition sample_reschedule :: operation where
  "sample_reschedule =
     UpdateState 400 ''T1''
       (TIRescheduleStatePayload \<lparr>res_end_date = 400, res_reschedule_date = 900\<rparr>)"

section \<open>Properties\<close>

lemmas handler_defs =
  ti_run_def ti_update_state_def ti_heartbeat_def session_execute_def query_values_def
  update_TI_def duration_expression_update_def session_add_Trigger_def
  session_add_TaskReschedule_def Trigger_def TaskReschedule_def Let_def

lemmas sample_defs =
  sample_ti_def sample_dr_def session_with_def worker_h1_def running_ti_def
  sample_deferral_def finished_ti_def deferred_ti_def start_and_defer_def report_success_def
  sample_reschedule_def

subsection \<open>Start-run\<close>

text \<open>C3. For every existing task instance whose state is not QUEUED, start-run fails with
  the invalid-state conflict carrying that state and returns the session as it was; so it
  can only succeed from QUEUED.\<close>

theorem ti_run_not_queued:
  assumes "TI_table session ti_id_str = Some old" and "state old \<noteq> QUEUED"
  shows "ti_run ti_id_str ti_run_payload session =
           (session, Inl (HTTP_409_invalid_state (state old)))"
  using assms by (simp add: ti_run_def Let_def)

text \<open>A running instance refuses a second start-run.\<close>

theorem ti_run_not_queued_witness:
  "TI_table (session_with running_ti) ''T1'' = Some running_ti
   \<and> state running_ti \<noteq> QUEUED
   \<and> ti_run ''T1'' worker_h1 (session_with running_ti) =
       (session_with running_ti, Inl (HTTP_409_invalid_state RUNNING))"
  using ti_run_not_queued [where session = "session_with running_ti" and ti_id_str = "''T1''"
      and old = running_ti and ti_run_payload = worker_h1]
  by (simp add: sample_defs)

text \<open>C4. For every task instance in state QUEUED, start-run sets the state to RUNNING,
  stores the caller's hostname, unixname and pid, sets the end date to null and changes
  nothing else; it returns the run context of the run with the instance's dag id and run
  id when there is exactly one, and fails with the uncaught \<^verbatim>\<open>ValueError\<close> (an internal
  error, not the 404) when there is none.\<close>

theorem ti_run_queued:
  assumes "TI_table session ti_id_str = Some old" and "state old = QUEUED"
  shows "fst (ti_run ti_id_str p session) =
           session\<lparr>TI_table := (TI_table session)(ti_id_str \<mapsto>
             old\<lparr>end_date := None, hostname := Some (run_hostname p),
                 unixname := Some (run_unixname p), pid := Some (run_pid p),
                 state := RUNNING\<rparr>)\<rparr>
       \<and> (filter (\<lambda>r. dr_dag_id r = dag_id old \<and> dr_run_id r = run_id old)
             (DR_table session) = [dr]
            \<longrightarrow> snd (ti_run ti_id_str p session) =
                  Inr \<lparr>dag_run = dr, variables = [], connections = []\<rparr>)
       \<and> (filter (\<lambda>r. dr_dag_id r = dag_id old \<and> dr_run_id r = run_id old)
             (DR_table session) = []
            \<longrightarrow> snd (ti_run ti_id_str p session) =
                  Inl (ValueError_DagRun_not_found (dag_id old) (run_id old))
                \<and> snd (ti_run ti_id_str p session) \<noteq> Inl HTTP_404_not_found)"
  using assms by (simp add: handler_defs)

text \<open>The queued sample instance, once with its run present and once with the run table
  empty.\<close>

theorem ti_run_queued_witness:
  "TI_table (session_with sample_ti) ''T1'' = Some sample_ti
   \<and> state sample_ti = QUEUED
   \<and> filter (\<lambda>r. dr_dag_id r = dag_id sample_ti \<and> dr_run_id r = run_id sample_ti)
       (DR_table (session_with sample_ti)) = [sample_dr]
   \<and> snd (ti_run ''T1'' worker_h1 (session_with sample_ti)) =
       Inr \<lparr>dag_run = sample_dr, variables = [], connections = []\<rparr>
   \<and> TI_table (fst (ti_run ''T1'' worker_h1 (session_with sample_ti))) ''T1'' =
       Some (sample_ti\<lparr>end_date := None, hostname := Some ''h1'', unixname := Some ''airflow'',
                       pid := Some 1000, state := RUNNING\<rparr>)
   \<and> filter (\<lambda>r. dr_dag_id r = dag_id sample_ti \<and> dr_run_id r = run_id sample_ti)
       (DR_table ((session_with sample_ti)\<lparr>DR_table := []\<rparr>)) = []
   \<and> snd (ti_run ''T1'' worker_h1 ((session_with sample_ti)\<lparr>DR_table := []\<rparr>)) =
       Inl (ValueError_DagRun_not_found ''etl'' ''manual_1'')"
  using ti_run_queued [where session = "session_with sample_ti" and ti_id_str = "''T1''"
      and old = sample_ti and dr = sample_dr and p = worker_h1]
    ti_run_queued [where session = "(session_with sample_ti)\<lparr>DR_table := []\<rparr>"
      and ti_id_str = "''T1''" and old = sample_ti and dr = sample_dr and p = worker_h1]
  by (simp add: sample_defs)

subsection \<open>Heartbeat\<close>

text \<open>C2, as stated, fails: the identity check comes first, so a heartbeat from another
  worker for an instance that is not running is answered with running-elsewhere, not with
  not-running. Here the instance is QUEUED and held by (h1, 1000), the caller is
  (h2, 2000).\<close>

theorem ti_heartbeat_not_running_mismatch:
  "state (sample_ti\<lparr>hostname := Some ''h1'', pid := Some 1000\<rparr>) \<noteq> RUNNING
   \<and> ti_heartbeat 300 ''T1'' \<lparr>hb_hostname = ''h2'', hb_pid = 2000\<rparr>
       (session_with (sample_ti\<lparr>hostname := Some ''h1'', pid := Some 1000\<rparr>)) =
       (session_with (sample_ti\<lparr>hostname := Some ''h1'', pid := Some 1000\<rparr>),
        Inl (HTTP_409_running_elsewhere (Some ''h1'') (Some 1000)))
   \<and> HTTP_409_running_elsewhere (Some ''h1'') (Some 1000) \<noteq> HTTP_409_not_running QUEUED"
  by (simp add: sample_defs handler_defs)

text \<open>C2, amended. For every existing task instance whose state is not RUNNING, a heartbeat
  always fails with a conflict and leaves the session as it was: with not-running, carrying
  the current state, when the caller's (hostname, pid) matches the stored identity, and with
  running-elsewhere, carrying the stored identity, when it does not.\<close>

theorem ti_heartbeat_not_running:
  assumes "TI_table session ti_id_str = Some old" and "state old \<noteq> RUNNING"
  shows "ti_heartbeat utcnow ti_id_str ti_payload session =
           (session,
            if hostname old = Some (hb_hostname ti_payload) \<and> pid old = Some (hb_pid ti_payload)
            then Inl (HTTP_409_not_running (state old))
            else Inl (HTTP_409_running_elsewhere (hostname old) (pid old)))"
  using assms by (simp add: ti_heartbeat_def Let_def)

text \<open>The finished sample instance, heartbeated by its own holder.\<close>

theorem ti_heartbeat_not_running_witness:
  "TI_table (session_with finished_ti) ''T1'' = Some finished_ti
   \<and> state finished_ti \<noteq> RUNNING
   \<and> ti_heartbeat 300 ''T1'' \<lparr>hb_hostname = ''h1'', hb_pid = 1000\<rparr> (session_with finished_ti) =
       (session_with finished_ti, Inl (HTTP_409_not_running SUCCESS))"
  using ti_heartbeat_not_running [where session = "session_with finished_ti"
      and ti_id_str = "''T1''" and old = finished_ti and utcnow = 300
      and ti_payload = "\<lparr>hb_hostname = ''h1'', hb_pid = 1000\<rparr>"]
  by (simp add: sample_defs)

text \<open>C5, as stated, fails: the handler writes the clock reading without comparing it with
  the stored timestamp. The running sample instance was last heartbeated at 200; a heartbeat
  of its holder that reads the clock at 150 succeeds and moves the timestamp back.\<close>

theorem ti_heartbeat_clock_behind:
  "state running_ti = RUNNING
   \<and> hostname running_ti = Some ''h1'' \<and> pid running_ti = Some 1000
   \<and> last_heartbeat_at running_ti = Some 200
   \<and> ti_heartbeat 150 ''T1'' \<lparr>hb_hostname = ''h1'', hb_pid = 1000\<rparr> (session_with running_ti) =
       (session_with (running_ti\<lparr>last_heartbeat_at := Some 150\<rparr>), Inr ())
   \<and> \<not> (200 :: int) < 150"
  by (simp add: sample_defs handler_defs)

text \<open>C5, amended. For every task instance in state RUNNING, a heartbeat from the recorded
  holder (matching stored hostname and pid) succeeds, sets the last heartbeat to the current
  time in a single write and changes no other field of the instance and nothing else in the
  session.\<close>

theorem ti_heartbeat_holder:
  assumes "TI_table session ti_id_str = Some old" and "state old = RUNNING"
    and "hostname old = Some (hb_hostname ti_payload)" and "pid old = Some (hb_pid ti_payload)"
  shows "ti_heartbeat utcnow ti_id_str ti_payload session =
           (session\<lparr>TI_table := (TI_table session)(ti_id_str \<mapsto>
              old\<lparr>last_heartbeat_at := Some utcnow\<rparr>)\<rparr>,
            Inr ())"
  using assms by (simp add: handler_defs)

text \<open>The running sample instance, heartbeated by (h1, 1000) at 260.\<close>

theorem ti_heartbeat_holder_witness:
  "TI_table (session_with running_ti) ''T1'' = Some running_ti
   \<and> state running_ti = RUNNING
   \<and> hostname running_ti = Some ''h1'' \<and> pid running_ti = Some 1000
   \<and> ti_heartbeat 260 ''T1'' \<lparr>hb_hostname = ''h1'', hb_pid = 1000\<rparr> (session_with running_ti) =
       (session_with (running_ti\<lparr>last_heartbeat_at := Some 260\<rparr>), Inr ())"
  using ti_heartbeat_holder [where session = "session_with running_ti" and ti_id_str = "''T1''"
      and old = running_ti and utcnow = 260
      and ti_payload = "\<lparr>hb_hostname = ''h1'', hb_pid = 1000\<rparr>"]
  by (simp add: sample_defs)

text \<open>C6. For every existing task instance, a heartbeat whose hostname or pid differs from
  the stored one fails with running-elsewhere, carrying the stored hostname and pid, and
  returns the session as it was.\<close>

theorem ti_heartbeat_running_elsewhere:
  assumes "TI_table session ti_id_str = Some old"
    and "hostname old \<noteq> Some (hb_hostname ti_payload) \<or> pid old \<noteq> Some (hb_pid ti_payload)"
  shows "ti_heartbeat utcnow ti_id_str ti_payload session =
           (session, Inl (HTTP_409_running_elsewhere (hostname old) (pid old)))"
  using assms by (auto simp add: ti_heartbeat_def Let_def)

text \<open>Same host, another process: (h1, 2000) against the holder (h1, 1000).\<close>

theorem ti_heartbeat_running_elsewhere_witness:
  "TI_table (session_with running_ti) ''T1'' = Some running_ti
   \<and> pid running_ti \<noteq> Some 2000
   \<and> ti_heartbeat 260 ''T1'' \<lparr>hb_hostname = ''h1'', hb_pid = 2000\<rparr> (session_with running_ti) =
       (session_with running_ti, Inl (HTTP_409_running_elsewhere (Some ''h1'') (Some 1000)))"
  using ti_heartbeat_running_elsewhere [where session = "session_with running_ti"
      and ti_id_str = "''T1''" and old = running_ti and utcnow = 260
      and ti_payload = "\<lparr>hb_hostname = ''h1'', hb_pid = 2000\<rparr>"]
  by (simp add: sample_defs)

subsection \<open>Update-state\<close>

text \<open>What each payload kind does to an existing instance.\<close>

lemma ti_update_state_deferred_result:
  assumes "TI_table session ti_id_str = Some old"
  shows "ti_update_state utcnow ti_id_str (TIDeferredStatePayload p) session =
           (session\<lparr>Trigger_table := Trigger_table session @
                [\<lparr>id_col = None, classpath = def_classpath p, kwargs = def_trigger_kwargs p\<rparr>],
              TI_table := (TI_table session)(ti_id_str \<mapsto>
                old\<lparr>state := DEFERRED, trigger_id := None,
                    next_method := Some (def_next_method p),
                    next_kwargs := Some (def_trigger_kwargs p),
                    trigger_timeout := map_option (\<lambda>d. utcnow + d) (def_trigger_timeout p)\<rparr>)\<rparr>,
            Inr ())"
  using assms by (cases "def_trigger_timeout p") (simp_all add: handler_defs)

lemma ti_update_state_terminal_result:
  assumes "TI_table session ti_id_str = Some old"
  shows "ti_update_state utcnow ti_id_str (TITerminalStatePayload p) session =
           (session\<lparr>TI_table := (TI_table session)(ti_id_str \<mapsto>
              (if State_of (term_state p) = FAILED
               then old\<lparr>end_date := Some (term_end_date p),
                        duration := map_option (\<lambda>s. term_end_date p - s) (start_date old),
                        state := FAILED, next_method := None, next_kwargs := None\<rparr>
               else old\<lparr>end_date := Some (term_end_date p),
                        duration := map_option (\<lambda>s. term_end_date p - s) (start_date old),
                        state := State_of (term_state p)\<rparr>))\<rparr>,
            Inr ())"
  using assms by (simp add: handler_defs)

text \<open>No handler removes or changes a reschedule record: the table only grows at its
  end.\<close>

lemma perform_TaskReschedule_table:
  "prefix (TaskReschedule_table session) (TaskReschedule_table (perform op session))"
proof (cases op)
  case (Run j p)
  then show ?thesis
    by (simp add: ti_run_def session_execute_def Let_def split: option.splits)
next
  case (Heartbeat t j p)
  then show ?thesis
    by (simp add: ti_heartbeat_def session_execute_def Let_def split: option.splits)
next
  case (UpdateState t j p)
  then show ?thesis
    by (cases p) (simp_all add: handler_defs split: option.splits)
qed

lemma fold_perform_TaskReschedule_table:
  "prefix (TaskReschedule_table session) (TaskReschedule_table (fold perform ops session))"
proof (induction ops arbitrary: session)
  case Nil
  show ?case by simp
next
  case (Cons op ops)
  have "prefix (TaskReschedule_table session) (TaskReschedule_table (perform op session))"
    by (rule perform_TaskReschedule_table)
  also have "prefix \<dots> (TaskReschedule_table (fold perform ops (perform op session)))"
    by (rule Cons.IH)
  finally show ?case by simp
qed

text \<open>C1. A task instance in a terminal state is to refuse every further transition.
  \<^verbatim>\<open>ti_run\<close> does; \<^verbatim>\<open>ti_update_state\<close> reads the previous state and never looks at
  it. Here the finished sample instance (SUCCESS) takes a terminal update to FAILED: the
  call succeeds and rewrites state, end date and duration.\<close>

theorem ti_update_state_accepts_terminal_instance:
  "state finished_ti = SUCCESS
   \<and> ti_update_state 500 ''T1''
       (TITerminalStatePayload \<lparr>term_state = TERMINAL_FAILED, term_end_date = 500\<rparr>)
       (session_with finished_ti) =
       (session_with (finished_ti\<lparr>end_date := Some 500, duration := Some 400, state := FAILED\<rparr>),
        Inr ())"
  by (simp add: sample_defs handler_defs)

text \<open>C7. For every existing task instance and every terminal payload with final state
  FAILED and end date \<open>t\<close>, the update succeeds and afterwards the state is FAILED, the next
  method and next kwargs are null whatever they were, the end date is \<open>t\<close> and the duration
  is \<open>t\<close> minus the stored start date (null without one); no other field changes.\<close>

theorem ti_update_state_failed:
  assumes "TI_table session ti_id_str = Some old" and "term_state p = TERMINAL_FAILED"
  shows "ti_update_state utcnow ti_id_str (TITerminalStatePayload p) session =
           (session\<lparr>TI_table := (TI_table session)(ti_id_str \<mapsto>
              old\<lparr>end_date := Some (term_end_date p),
                  duration := map_option (\<lambda>s. term_end_date p - s) (start_date old),
                  state := FAILED, next_method := None, next_kwargs := None\<rparr>)\<rparr>,
            Inr ())"
  using assms by (simp add: handler_defs)

text \<open>The deferred sample instance, started at 100, fails at 500.\<close>

theorem ti_update_state_failed_witness:
  "TI_table (session_with deferred_ti) ''T1'' = Some deferred_ti
   \<and> term_state \<lparr>term_state = TERMINAL_FAILED, term_end_date = 500\<rparr> = TERMINAL_FAILED
   \<and> next_method deferred_ti = Some ''execute_complete''
   \<and> ti_update_state 500 ''T1''
       (TITerminalStatePayload \<lparr>term_state = TERMINAL_FAILED, term_end_date = 500\<rparr>)
       (session_with deferred_ti) =
       (session_with (deferred_ti\<lparr>end_date := Some 500, duration := Some 400, state := FAILED,
                                  next_method := None, next_kwargs := None\<rparr>),
        Inr ())"
  using ti_update_state_failed [where session = "session_with deferred_ti"
      and ti_id_str = "''T1''" and old = deferred_ti and utcnow = 500
      and p = "\<lparr>term_state = TERMINAL_FAILED, term_end_date = 500\<rparr>"]
  by (simp add: sample_defs)

text \<open>C9. A deferred update is to link the identifier of the trigger it creates into the
  instance. The handler reads \<^verbatim>\<open>trigger_row.id\<close> right after \<^verbatim>\<open>session.add\<close>, before
  any flush has given the row an identifier, and so writes null. Here the running sample
  instance is deferred at 1000 with a timeout of 60: one trigger is added, state,
  continuation fields and timeout are set, and the trigger id of the instance is null; the
  commit gives the trigger the identifier 1 and the instance still has none.\<close>

theorem ti_update_state_deferred_unlinked:
  "ti_update_state 1000 ''T1'' (TIDeferredStatePayload sample_deferral) (session_with running_ti) =
     (\<lparr>TI_table = [''T1'' \<mapsto> running_ti\<lparr>state := DEFERRED, trigger_id := None,
                      next_method := Some ''execute_complete'',
                      next_kwargs := Some ''{moment: 9}'',
                      trigger_timeout := Some 1060\<rparr>],
       DR_table = [sample_dr],
       Trigger_table =
         [\<lparr>id_col = None, classpath = ''triggers.DateTimeTrigger'', kwargs = ''{moment: 9}''\<rparr>],
       TaskReschedule_table = []\<rparr>,
      Inr ())
   \<and> session_commit
       (fst (ti_update_state 1000 ''T1'' (TIDeferredStatePayload sample_deferral)
          (session_with running_ti))) =
       \<lparr>TI_table = [''T1'' \<mapsto> running_ti\<lparr>state := DEFERRED, trigger_id := None,
                       next_method := Some ''execute_complete'',
                       next_kwargs := Some ''{moment: 9}'',
                       trigger_timeout := Some 1060\<rparr>],
        DR_table = [sample_dr],
        Trigger_table =
          [\<lparr>id_col = Some 1, classpath = ''triggers.DateTimeTrigger'', kwargs = ''{moment: 9}''\<rparr>],
        TaskReschedule_table = []\<rparr>"
  by (simp add: sample_defs handler_defs session_commit_def)

text \<open>C10. For every existing task instance, a reschedule update succeeds, appends exactly
  one reschedule record carrying the instance's task id, dag id, run id, try number and map
  index (with the current time, the payload's end date and its reschedule date), stores the
  end date, recomputes the duration from it, clears next method and next kwargs and sets the
  state to UP_FOR_RESCHEDULE; whatever handlers run afterwards, the records present after
  the call stay as they are.\<close>

theorem ti_update_state_reschedule:
  assumes "TI_table session ti_id_str = Some old"
  shows "ti_update_state utcnow ti_id_str (TIRescheduleStatePayload p) session =
           (session\<lparr>TaskReschedule_table := TaskReschedule_table session @
                [\<lparr>tr_task_id = task_id old, tr_dag_id = dag_id old, tr_run_id = run_id old,
                  tr_try_number = try_number old, tr_start_date = utcnow,
                  tr_end_date = res_end_date p, tr_reschedule_date = res_reschedule_date p,
                  tr_map_index = map_index old\<rparr>],
              TI_table := (TI_table session)(ti_id_str \<mapsto>
                old\<lparr>end_date := Some (res_end_date p),
                    duration := map_option (\<lambda>s. res_end_date p - s) (start_date old),
                    state := UP_FOR_RESCHEDULE, next_method := None, next_kwargs := None\<rparr>)\<rparr>,
            Inr ())
       \<and> prefix
           (TaskReschedule_table
              (fst (ti_update_state utcnow ti_id_str (TIRescheduleStatePayload p) session)))
           (TaskReschedule_table
              (fold perform ops
                 (fst (ti_update_state utcnow ti_id_str (TIRescheduleStatePayload p) session))))"
proof
  show "ti_update_state utcnow ti_id_str (TIRescheduleStatePayload p) session =
           (session\<lparr>TaskReschedule_table := TaskReschedule_table session @
                [\<lparr>tr_task_id = task_id old, tr_dag_id = dag_id old, tr_run_id = run_id old,
                  tr_try_number = try_number old, tr_start_date = utcnow,
                  tr_end_date = res_end_date p, tr_reschedule_date = res_reschedule_date p,
                  tr_map_index = map_index old\<rparr>],
              TI_table := (TI_table session)(ti_id_str \<mapsto>
                old\<lparr>end_date := Some (res_end_date p),
                    duration := map_option (\<lambda>s. res_end_date p - s) (start_date old),
                    state := UP_FOR_RESCHEDULE, next_method := None, next_kwargs := None\<rparr>)\<rparr>,
            Inr ())"
    using assms by (simp add: handler_defs)
next
  show "prefix
           (TaskReschedule_table
              (fst (ti_update_state utcnow ti_id_str (TIRescheduleStatePayload p) session)))
           (TaskReschedule_table
              (fold perform ops
                 (fst (ti_update_state utcnow ti_id_str (TIRescheduleStatePayload p) session))))"
    by (rule fold_perform_TaskReschedule_table)
qed

text \<open>The running sample instance is rescheduled at 400 for 900; a second reschedule and a
  start-run afterwards leave the first record in place.\<close>

theorem ti_update_state_reschedule_witness:
  "TI_table (session_with running_ti) ''T1'' = Some running_ti
   \<and> ti_update_state 400 ''T1''
       (TIRescheduleStatePayload \<lparr>res_end_date = 400, res_reschedule_date = 900\<rparr>)
       (session_with running_ti) =
       (\<lparr>TI_table = [''T1'' \<mapsto> running_ti\<lparr>end_date := Some 400, duration := Some 300,
                        state := UP_FOR_RESCHEDULE\<rparr>],
         DR_table = [sample_dr], Trigger_table = [],
         TaskReschedule_table =
           [\<lparr>tr_task_id = ''extract'', tr_dag_id = ''etl'', tr_run_id = ''manual_1'',
             tr_try_number = 1, tr_start_date = 400, tr_end_date = 400,
             tr_reschedule_date = 900, tr_map_index = - 1\<rparr>]\<rparr>,
        Inr ())
   \<and> prefix
       [\<lparr>tr_task_id = ''extract'', tr_dag_id = ''etl'', tr_run_id = ''manual_1'',
         tr_try_number = 1, tr_start_date = 400, tr_end_date = 400,
         tr_reschedule_date = 900, tr_map_index = - 1\<rparr>]
       (TaskReschedule_table
          (fold perform [sample_reschedule, Run ''T1'' worker_h1]
             (fst (ti_update_state 400 ''T1''
                (TIRescheduleStatePayload \<lparr>res_end_date = 400, res_reschedule_date = 900\<rparr>)
                (session_with running_ti)))))"
  using ti_update_state_reschedule [where session = "session_with running_ti"
      and ti_id_str = "''T1''" and old = running_ti and utcnow = 400
      and p = "\<lparr>res_end_date = 400, res_reschedule_date = 900\<rparr>"
      and ops = "[sample_reschedule, Run ''T1'' worker_h1]"]
  by (simp add: sample_defs handler_defs)

subsection \<open>The continuation invariant\<close>

text \<open>C8, as stated, fails: a terminal update clears the continuation fields only when the
  final state is FAILED. The queued sample instance satisfies the invariant; start-run and
  a deferred update bring it to DEFERRED with continuation data, still within the invariant;
  a terminal update to SUCCESS then leaves next method and next kwargs set in state
  SUCCESS.\<close>

theorem continuation_data_after_success:
  "continuation_invariant sample_ti
   \<and> TI_table (fold perform start_and_defer (session_with sample_ti)) ''T1'' = Some deferred_ti
   \<and> continuation_invariant deferred_ti
   \<and> TI_table (perform report_success (fold perform start_and_defer (session_with sample_ti)))
       ''T1'' =
       Some (deferred_ti\<lparr>end_date := Some 400, duration := Some 300, state := SUCCESS\<rparr>)
   \<and> next_method (deferred_ti\<lparr>end_date := Some 400, duration := Some 300, state := SUCCESS\<rparr>) =
       Some ''execute_complete''
   \<and> \<not> continuation_invariant
         (deferred_ti\<lparr>end_date := Some 400, duration := Some 300, state := SUCCESS\<rparr>)"
  by (simp add: sample_defs handler_defs continuation_invariant_def)

text \<open>C8, amended. The invariant (next method and next kwargs are non-null only in state
  DEFERRED) is preserved, for every instance of the session, by start-run, by heartbeat and
  by every update-state other than a terminal update whose final state is not FAILED; every
  terminal update to FAILED and every reschedule update clears both fields of its instance;
  a terminal update to another final state leaves both fields as they were.\<close>

theorem continuation_invariant_preserved:
  assumes "TI_table session i = Some ti" and "continuation_invariant ti"
  shows "(\<not> terminal_not_failed op \<longrightarrow>
            (\<exists>ti'. TI_table (perform op session) i = Some ti' \<and> continuation_invariant ti'))
       \<and> (clearing_update i op \<longrightarrow>
            (\<exists>ti'. TI_table (perform op session) i = Some ti'
                   \<and> next_method ti' = None \<and> next_kwargs ti' = None))
       \<and> (terminal_not_failed op \<longrightarrow>
            (\<exists>ti'. TI_table (perform op session) i = Some ti'
                   \<and> next_method ti' = next_method ti \<and> next_kwargs ti' = next_kwargs ti))"
proof (cases op)
  case (Run j p)
  with assms show ?thesis
    by (auto simp add: ti_run_def session_execute_def query_values_def update_TI_def Let_def
          continuation_invariant_def split: option.splits)
next
  case (Heartbeat t j p)
  with assms show ?thesis
    by (auto simp add: ti_heartbeat_def session_execute_def query_values_def update_TI_def
          Let_def continuation_invariant_def split: option.splits)
next
  case (UpdateState t j p)
  with assms show ?thesis
    by (cases p) (auto simp add: handler_defs continuation_invariant_def split: option.splits)
qed

text \<open>The deferred sample instance under a reschedule update, which clears its continuation
  data, and under a terminal update to SUCCESS, which keeps it.\<close>

theorem continuation_invariant_preserved_witness:
  "TI_table (session_with deferred_ti) ''T1'' = Some deferred_ti
   \<and> continuation_invariant deferred_ti
   \<and> \<not> terminal_not_failed sample_reschedule
   \<and> clearing_update ''T1'' sample_reschedule
   \<and> TI_table (perform sample_reschedule (session_with deferred_ti)) ''T1'' =
       Some (deferred_ti\<lparr>end_date := Some 400, duration := Some 300, state := UP_FOR_RESCHEDULE,
                         next_method := None, next_kwargs := None\<rparr>)
   \<and> continuation_invariant
       (deferred_ti\<lparr>end_date := Some 400, duration := Some 300, state := UP_FOR_RESCHEDULE,
                    next_method := None, next_kwargs := None\<rparr>)
   \<and> terminal_not_failed report_success
   \<and> TI_table (perform report_success (session_with deferred_ti)) ''T1'' =
       Some (deferred_ti\<lparr>end_date := Some 400, duration := Some 300, state := SUCCESS\<rparr>)"
  using continuation_invariant_preserved [where session = "session_with deferred_ti"
      and i = "''T1''" and ti = deferred_ti and op = sample_reschedule]
    continuation_invariant_preserved [where session = "session_with deferred_ti"
      and i = "''T1''" and ti = deferred_ti and op = report_success]
  by (simp add: sample_defs handler_defs continuation_invariant_def)

end
